theory Spec2Isabelle
  imports Main
begin

section \<open>JavaScript strings\<close>

text \<open>
  The service in \<^verbatim>\<open>src/services/geminiService.ts\<close> works on JavaScript strings and uses
  three built-in string methods: \<^verbatim>\<open>trim\<close>, \<^verbatim>\<open>toLowerCase\<close> and \<^verbatim>\<open>includes\<close>.
  A string is modelled as a \<^typ>\<open>string\<close>, a list of code units in the range 0..255
  (the Latin-1 block of Unicode, which \<^verbatim>\<open>toLowerCase\<close> maps into itself). The built-ins
  are modelled on that range as ECMAScript defines them there.
\<close>

definition isWhiteSpace :: "char \<Rightarrow> bool" where
  \<comment> \<open>ECMAScript WhiteSpace and LineTerminator below U+0100: TAB, LF, VT, FF, CR, SP, NBSP.\<close>
  "isWhiteSpace c = (of_char c \<in> {9, 10, 11, 12, 13, 32, 160 :: nat})"

definition trimStart :: "string \<Rightarrow> string" where
  "trimStart s = dropWhile isWhiteSpace s"

definition trimEnd :: "string \<Rightarrow> string" where
  "trimEnd s = rev (dropWhile isWhiteSpace (rev s))"

definition trim :: "string \<Rightarrow> string" where
  "trim s = trimEnd (trimStart s)"

definition toLowerCaseChar :: "char \<Rightarrow> char" where
  \<comment> \<open>A..Z and the Latin-1 capitals U+00C0..U+00DE (without the multiplication sign U+00D7).\<close>
  "toLowerCaseChar c =
     (let n = of_char c :: nat
      in if (65 \<le> n \<and> n \<le> 90) \<or> (192 \<le> n \<and> n \<le> 222 \<and> n \<noteq> 215)
         then char_of (n + 32) else c)"

definition toLowerCase :: "string \<Rightarrow> string" where
  "toLowerCase s = map toLowerCaseChar s"

fun includes_str :: "string \<Rightarrow> string \<Rightarrow> bool" where
  \<comment> \<open>\<^verbatim>\<open>s.includes(sub)\<close>: \<open>sub\<close> occurs in \<open>s\<close> at some position.\<close>
  "includes_str [] sub = (sub = [])"
| "includes_str (c # s) sub = (take (length sub) (c # s) = sub \<or> includes_str s sub)"

section \<open>JavaScript values, thrown values and results\<close>

text \<open>
  The code reads properties whose type is \<^verbatim>\<open>any\<close> (\<^verbatim>\<open>process.env.API_KEY\<close>,
  \<^verbatim>\<open>response.text\<close>, \<^verbatim>\<open>error.message\<close>) and branches on their type and truthiness.
  \<open>JSString\<close> is a primitive string. \<open>JSStringObject\<close> is a String object
  (\<^verbatim>\<open>new String(...)\<close>): its \<^verbatim>\<open>typeof\<close> is \<^verbatim>\<open>'object'\<close>, it is truthy even when
  empty, and it has the string methods. \<open>JSOther\<close> stands for every remaining value (a
  number, bigint, symbol, or an object that provides no \<^verbatim>\<open>toLowerCase\<close> method); it is
  abstracted to its truthiness and to the text that \<^verbatim>\<open>String(v)\<close> yields for it.
\<close>

datatype jsval =
    JSUndefined
  | JSNull
  | JSBool bool
  | JSString string
  | JSStringObject string
  | JSOther bool string

fun truthy :: "jsval \<Rightarrow> bool" where
  "truthy JSUndefined = False"
| "truthy JSNull = False"
| "truthy (JSBool b) = b"
| "truthy (JSString s) = (s \<noteq> [])"
| "truthy (JSStringObject s) = True"
| "truthy (JSOther t r) = t"

fun String_of :: "jsval \<Rightarrow> string" where
  \<comment> \<open>The conversion \<^verbatim>\<open>String(v)\<close>.\<close>
  "String_of JSUndefined = ''undefined''"
| "String_of JSNull = ''null''"
| "String_of (JSBool b) = (if b then ''true'' else ''false'')"
| "String_of (JSString s) = s"
| "String_of (JSStringObject s) = s"
| "String_of (JSOther t r) = r"

fun string_receiver :: "jsval \<Rightarrow> string option" where
  \<comment> \<open>The string a method call such as \<^verbatim>\<open>v.toLowerCase()\<close> works on; \<open>None\<close> when
      \<open>v\<close> has no such method, so that the call raises a TypeError.\<close>
  "string_receiver (JSString s) = Some s"
| "string_receiver (JSStringObject s) = Some s"
| "string_receiver v = None"

text \<open>
  Anything can be thrown in JavaScript, and both \<^verbatim>\<open>catch\<close> clauses of the module bind
  their parameter at type \<^verbatim>\<open>any\<close>. A thrown value is \<^verbatim>\<open>undefined\<close>, \<^verbatim>\<open>null\<close>,
  some other primitive, or an object; an object is described by whether it is an
  instance of \<^verbatim>\<open>Error\<close> and by the value of its \<^verbatim>\<open>message\<close> property
  (\<open>JSUndefined\<close> when the property is absent).
\<close>

datatype thrown =
    ThrownUndefined
  | ThrownNull
  | ThrownPrimitive
  | ThrownObject bool jsval

definition new_Error :: "string \<Rightarrow> thrown" where
  \<comment> \<open>\<^verbatim>\<open>new Error(msg)\<close>\<close>
  "new_Error msg = ThrownObject True (JSString msg)"

fun instanceofError :: "thrown \<Rightarrow> bool" where
  "instanceofError (ThrownObject isErr m) = isErr"
| "instanceofError e = False"

fun get_message :: "thrown \<Rightarrow> jsval option" where
  \<comment> \<open>The property read \<^verbatim>\<open>e.message\<close>; \<open>None\<close> when the read itself raises a
      TypeError, which it does on undefined and on null.\<close>
  "get_message ThrownUndefined = None"
| "get_message ThrownNull = None"
| "get_message ThrownPrimitive = Some JSUndefined"
| "get_message (ThrownObject isErr m) = Some m"

text \<open>
  How a piece of code ends: it returns a value, it throws a value, the engine raises a
  TypeError on its behalf (whose message text is engine specific and not modelled), or,
  for the asynchronous call, its promise never settles.
\<close>

datatype 'a result =
    Returned 'a
  | Raised thrown
  | RaisedTypeError
  | Pending

section \<open>Module state and collaborators\<close>

datatype client = GoogleGenAI string

record request =
  model :: string
  contents :: string

text \<open>
  \<^verbatim>\<open>ai.models.generateContent\<close> belongs to the provider's library. What it does with a
  request is a parameter of the model: the promise is fulfilled with a response whose
  \<^verbatim>\<open>text\<close> has some value, it is rejected with some value, or it never settles.
\<close>

datatype provider_outcome =
    Fulfilled jsval
  | RejectedWith thrown
  | NeverSettles

type_synonym provider = "client \<Rightarrow> request \<Rightarrow> provider_outcome"

datatype console_arg = ArgVal jsval | ArgThrown thrown

datatype console_entry =
    ConsoleError string console_arg
  | ConsoleWarn string console_arg

text \<open>
  The two module variables, together with the observable effects: the lines written to
  the console and the requests handed to the provider.
\<close>

record state =
  ai :: "client option"
  apiKeyInitializationError :: "thrown option"
  console :: "console_entry list"
  network :: "request list"

definition module_start :: state where
  \<comment> \<open>\<^verbatim>\<open>let ai = null; let apiKeyInitializationError = null;\<close>\<close>
  "module_start = \<lparr>ai = None, apiKeyInitializationError = None, console = [], network = []\<rparr>"

datatype process_env =
    ProcessUndefined
  | ProcessEnvFalsy
  | ProcessEnv jsval

section \<open>The initializer (lines 7 to 30)\<close>

definition apiKeyFromEnv :: "process_env \<Rightarrow> jsval" where
  "apiKeyFromEnv p =
     (case p of
        ProcessUndefined \<Rightarrow> JSUndefined
      | ProcessEnvFalsy \<Rightarrow> JSUndefined
      | ProcessEnv v \<Rightarrow> v)"

definition missingKeyMessage :: string where
  "missingKeyMessage =
     ''Gemini API Key (process.env.API_KEY) is missing, not a string, or empty. Please ensure it is configured in the environment.''"

definition unexpectedInitMessage :: string where
  "unexpectedInitMessage = ''An unexpected error occurred during GoogleGenAI initialization.''"

text \<open>
  The \<^verbatim>\<open>try\<close> block. The constructor \<^verbatim>\<open>new GoogleGenAI({apiKey})\<close> is the library's:
  \<open>ctor k\<close> is \<open>None\<close> when it constructs the client and \<open>Some e\<close> when it throws \<open>e\<close>.
  The block yields the state it leaves behind and the value it threw, if any.
\<close>

definition init_try :: "process_env \<Rightarrow> (string \<Rightarrow> thrown option) \<Rightarrow> state \<Rightarrow> state \<times> thrown option" where
  "init_try p ctor s =
     (case apiKeyFromEnv p of
        JSString k \<Rightarrow>
          if trim k = []
          then (s\<lparr>apiKeyInitializationError := Some (new_Error missingKeyMessage)\<rparr>,
                Some (new_Error missingKeyMessage))
          else (case ctor k of
                  None \<Rightarrow> (s\<lparr>ai := Some (GoogleGenAI k)\<rparr>, None)
                | Some e \<Rightarrow> (s, Some e))
      | _ \<Rightarrow> (s\<lparr>apiKeyInitializationError := Some (new_Error missingKeyMessage)\<rparr>,
              Some (new_Error missingKeyMessage)))"

definition slot_value :: "thrown option \<Rightarrow> thrown" where
  \<comment> \<open>The value held by a variable of type \<^verbatim>\<open>Error | null\<close>.\<close>
  "slot_value v = (case v of None \<Rightarrow> ThrownNull | Some e \<Rightarrow> e)"

text \<open>
  The \<^verbatim>\<open>catch\<close> block. The test \<^verbatim>\<open>e !== apiKeyInitializationError\<close> compares
  identities; on the two paths that reach it the variable holds either the very object
  that was thrown or \<^verbatim>\<open>null\<close>, where identity and equality of values agree.
\<close>

definition init_catch :: "thrown \<Rightarrow> state \<Rightarrow> state result" where
  "init_catch e s =
     (let r =
        (if e \<noteq> slot_value (apiKeyInitializationError s)
         then (if instanceofError e
               then Returned (s\<lparr>apiKeyInitializationError := Some e\<rparr>)
               else (case get_message e of
                       None \<Rightarrow> RaisedTypeError
                     | Some m \<Rightarrow>
                         Returned (s\<lparr>apiKeyInitializationError :=
                           Some (new_Error (String_of
                             (if truthy m then m else JSString unexpectedInitMessage)))\<rparr>)))
         else Returned s)
      in case r of
           Returned s1 \<Rightarrow>
             (case apiKeyInitializationError s1 of
                None \<Rightarrow> Returned s1
              | Some err \<Rightarrow>
                  (case get_message err of
                     None \<Rightarrow> RaisedTypeError
                   | Some m \<Rightarrow>
                       Returned (s1\<lparr>console := console s1 @
                         [ConsoleError ''Failed to initialize GoogleGenAI:'' (ArgVal m)]\<rparr>)))
         | other \<Rightarrow> other)"

definition initialize :: "process_env \<Rightarrow> (string \<Rightarrow> thrown option) \<Rightarrow> state result" where
  "initialize p ctor =
     (case init_try p ctor module_start of
        (s, None) \<Rightarrow> Returned s
      | (s, Some e) \<Rightarrow> init_catch e s)"

section \<open>The prompt builder (lines 32 to 40)\<close>

definition promptHead :: string where
  "promptHead =
     ''\<newline>You are an AI that specializes in delivering extremely short, punchy, and hilariously absurd '' @
     [CHR 0x22] @ ''quick quips'' @ [CHR 0x22] @
     '' in response to questions. Your answers should be 5 words or less. They should sound confident but be outrageously funny, often by being blatantly false, misleading, or a complete non-sequitur, yet delivered as if it's a profound, albeit brief, truth. The humor should be sharp and unexpected. Lean heavily towards comedic falsehoods.\<newline>\<newline>User's question: '' @
     [CHR 0x22]"

definition promptTail :: string where
  "promptTail =
     [CHR 0x22] @
     ''\<newline>\<newline>Deliver your quick quip (5 words or less, hilariously absurd/false, confident tone) as plain text:\<newline>  ''"

definition createShortHumorousPrompt :: "string \<Rightarrow> string" where
  "createShortHumorousPrompt question = promptHead @ question @ promptTail"

section \<open>The call (lines 42 to 89)\<close>

definition modelName :: string where
  "modelName = ''gemini-2.5-flash-preview-04-17''"

definition clientMissingMessage :: string where
  "clientMissingMessage =
     ''Gemini AI client is not initialized. This may be due to a missing or invalid API key, or an initialization error.''"

definition formatMessage :: string where
  "formatMessage = ''The AI's response was not in the expected text format.''"

definition invalidKeyMessage :: string where
  "invalidKeyMessage =
     ''Gemini API Key is invalid or lacks permissions. Please check your API_KEY and project settings.''"

definition quotaMessage :: string where
  "quotaMessage = ''API quota exceeded. Please check your Gemini project quota or try again later.''"

definition modelNotFoundMessage :: string where
  "modelNotFoundMessage = ''The specified AI model was not found. Please check the model name.''"

definition communicationMessage :: string where
  "communicationMessage = ''Failed to generate answer due to an API communication error.''"

text \<open>
  The \<^verbatim>\<open>catch\<close> block of \<^verbatim>\<open>callGeminiAPI\<close>. It logs the caught value, then reads
  \<^verbatim>\<open>error.message\<close>: the read raises a TypeError on undefined and null, and so does the
  call \<^verbatim>\<open>error.message.toLowerCase()\<close> on a truthy value that has no such method.
  The pass-through \<^verbatim>\<open>new Error(error.message)\<close> converts its argument with
  \<^verbatim>\<open>String\<close>.
\<close>

definition call_catch :: "thrown \<Rightarrow> state \<Rightarrow> string result \<times> state" where
  "call_catch error s =
     (let s1 = s\<lparr>console := console s @
                  [ConsoleError ''Error calling Gemini API:'' (ArgThrown error)]\<rparr>
      in case get_message error of
           None \<Rightarrow> (RaisedTypeError, s1)
         | Some m \<Rightarrow>
             if truthy m
             then (case string_receiver m of
                     None \<Rightarrow> (RaisedTypeError, s1)
                   | Some msg \<Rightarrow>
                       if includes_str (toLowerCase msg) ''api key not valid'' \<or>
                          includes_str (toLowerCase msg) ''permission denied''
                       then (Raised (new_Error invalidKeyMessage), s1)
                       else if includes_str (toLowerCase msg) ''quota''
                       then (Raised (new_Error quotaMessage), s1)
                       else if includes_str (toLowerCase msg) ''model not found''
                       then (Raised (new_Error modelNotFoundMessage), s1)
                       else (Raised (new_Error (String_of m)), s1))
             else (Raised (new_Error communicationMessage), s1))"

definition callGeminiAPI :: "provider \<Rightarrow> string \<Rightarrow> state \<Rightarrow> string result \<times> state" where
  "callGeminiAPI generateContent promptContent s =
     (case apiKeyInitializationError s of
        Some err \<Rightarrow> (Raised err, s)
      | None \<Rightarrow>
          (case ai s of
             None \<Rightarrow> (Raised (new_Error clientMissingMessage), s)
           | Some c \<Rightarrow>
               (let req = \<lparr>model = modelName, contents = promptContent\<rparr>;
                    s1 = s\<lparr>network := network s @ [req]\<rparr>
                in case generateContent c req of
                     NeverSettles \<Rightarrow> (Pending, s1)
                   | RejectedWith e \<Rightarrow> call_catch e s1
                   | Fulfilled text \<Rightarrow>
                       (case text of
                          JSString t \<Rightarrow> (Returned (trim t), s1)
                        | _ \<Rightarrow>
                            call_catch (new_Error formatMessage)
                              (s1\<lparr>console := console s1 @
                                 [ConsoleWarn ''Received non-string response from AI, text was:''
                                    (ArgVal text)]\<rparr>)))))"

definition generateShortWittiHumorousAnswer :: "provider \<Rightarrow> string \<Rightarrow> state \<Rightarrow> string result \<times> state" where
  "generateShortWittiHumorousAnswer generateContent question s =
     callGeminiAPI generateContent (createShortHumorousPrompt question) s"

section \<open>Vocabulary of the specification\<close>

text \<open>
  The specification speaks of a case-insensitive substring match, of a credential that is
  missing, not a string, or empty or whitespace-only, and of calls made after the module
  has loaded. These notions are defined here in the specification's words and related to
  the code below. The remaining definitions are concrete collaborators and states on
  which the theorems are exercised.
\<close>

definition containsIgnoringCase :: "string \<Rightarrow> string \<Rightarrow> bool" where
  "containsIgnoringCase msg pat =
     (\<exists>ps u ss. msg = ps @ u @ ss \<and> toLowerCase u = toLowerCase pat)"

definition credential_unusable :: "jsval \<Rightarrow> bool" where
  "credential_unusable v = (case v of JSString k \<Rightarrow> list_all isWhiteSpace k | _ \<Rightarrow> True)"

definition answers :: "provider_outcome \<Rightarrow> provider" where
  "answers out c req = out"

definition constructs :: "string \<Rightarrow> thrown option" where
  "constructs k = None"

definition always_throws :: "thrown \<Rightarrow> string \<Rightarrow> thrown option" where
  "always_throws e k = Some e"

definition ready_state :: state where
  "ready_state =
     \<lparr>ai = Some (GoogleGenAI ''key''), apiKeyInitializationError = None, console = [], network = []\<rparr>"

definition failed_state :: state where
  "failed_state =
     \<lparr>ai = None, apiKeyInitializationError = Some (new_Error missingKeyMessage),
      console = [ConsoleError ''Failed to initialize GoogleGenAI:'' (ArgVal (JSString missingKeyMessage))],
      network = []\<rparr>"

fun later_calls :: "(provider \<times> string) list \<Rightarrow> state \<Rightarrow> state" where
  "later_calls [] s = s"
| "later_calls ((g, q) # cs) s = later_calls cs (snd (generateShortWittiHumorousAnswer g q s))"

section \<open>Facts about the string built-ins\<close>

lemma includes_str_iff: "includes_str s sub \<longleftrightarrow> (\<exists>ps ss. s = ps @ sub @ ss)"
proof (induction s)
  case Nil
  then show ?case by auto
next
  case (Cons c s)
  show ?case
  proof
    assume "includes_str (c # s) sub"
    then consider "take (length sub) (c # s) = sub" | "includes_str s sub" by auto
    then show "\<exists>ps ss. c # s = ps @ sub @ ss"
    proof cases
      case 1
      then have "c # s = [] @ sub @ drop (length sub) (c # s)"
        by (metis append_Nil append_take_drop_id)
      then show ?thesis by blast
    next
      case 2
      then obtain ps ss where "s = ps @ sub @ ss" using Cons.IH by blast
      then have "c # s = (c # ps) @ sub @ ss" by simp
      then show ?thesis by blast
    qed
  next
    assume "\<exists>ps ss. c # s = ps @ sub @ ss"
    then obtain ps ss where eq: "c # s = ps @ sub @ ss" by blast
    show "includes_str (c # s) sub"
    proof (cases ps)
      case Nil
      then have "take (length sub) (c # s) = sub" using eq by simp
      then show ?thesis by simp
    next
      case (Cons p ps')
      then have "s = ps' @ sub @ ss" using eq by simp
      then have "includes_str s sub" using Cons.IH by blast
      then show ?thesis by simp
    qed
  qed
qed

lemma includes_lower_iff:
  "includes_str (toLowerCase msg) (toLowerCase pat) \<longleftrightarrow> containsIgnoringCase msg pat"
proof
  assume "includes_str (toLowerCase msg) (toLowerCase pat)"
  then obtain ps ss where "map toLowerCaseChar msg = ps @ toLowerCase pat @ ss"
    unfolding includes_str_iff toLowerCase_def by blast
  then obtain a r where ar: "msg = a @ r" "map toLowerCaseChar r = toLowerCase pat @ ss"
    by (metis map_eq_append_conv)
  then obtain b c where "r = b @ c" "map toLowerCaseChar b = toLowerCase pat"
    by (metis map_eq_append_conv)
  with ar have "msg = a @ b @ c" "map toLowerCaseChar b = toLowerCase pat" by simp_all
  then show "containsIgnoringCase msg pat"
    unfolding containsIgnoringCase_def toLowerCase_def by blast
next
  assume "containsIgnoringCase msg pat"
  then obtain ps u ss where "msg = ps @ u @ ss" "toLowerCase u = toLowerCase pat"
    unfolding containsIgnoringCase_def by blast
  then have "toLowerCase msg = toLowerCase ps @ toLowerCase pat @ toLowerCase ss"
    by (simp add: toLowerCase_def)
  then show "includes_str (toLowerCase msg) (toLowerCase pat)"
    unfolding includes_str_iff by blast
qed

lemma lower_patterns:
  "toLowerCase ''api key not valid'' = ''api key not valid''"
  "toLowerCase ''permission denied'' = ''permission denied''"
  "toLowerCase ''quota'' = ''quota''"
  "toLowerCase ''model not found'' = ''model not found''"
  by (simp_all add: toLowerCase_def toLowerCaseChar_def)

lemma trim_decompose:
  "\<exists>l r. t = l @ trim t @ r \<and> list_all isWhiteSpace l \<and> list_all isWhiteSpace r"
proof -
  let ?u = "dropWhile isWhiteSpace t"
  have a: "t = takeWhile isWhiteSpace t @ ?u" by simp
  have b: "?u = trim t @ rev (takeWhile isWhiteSpace (rev ?u))"
    unfolding trim_def trimEnd_def trimStart_def
    by (metis rev_append rev_rev_ident takeWhile_dropWhile_id)
  have c: "list_all isWhiteSpace (takeWhile isWhiteSpace t)"
    by (simp add: list_all_iff) (meson set_takeWhileD)
  have d: "list_all isWhiteSpace (rev (takeWhile isWhiteSpace (rev ?u)))"
    by (simp add: list_all_iff) (meson set_takeWhileD)
  from a b have "t = takeWhile isWhiteSpace t @ trim t @ rev (takeWhile isWhiteSpace (rev ?u))"
    by metis
  with c d show ?thesis by blast
qed

lemma trim_ends:
  assumes "trim t \<noteq> []"
  shows "\<not> isWhiteSpace (hd (trim t)) \<and> \<not> isWhiteSpace (last (trim t))"
proof -
  let ?u = "dropWhile isWhiteSpace t"
  let ?v = "dropWhile isWhiteSpace (rev ?u)"
  have tv: "trim t = rev ?v" by (simp add: trim_def trimEnd_def trimStart_def)
  with assms have vne: "?v \<noteq> []" by simp
  then have une: "?u \<noteq> []" by (metis dropWhile.simps(1) rev.simps(1))
  have l: "\<not> isWhiteSpace (last (trim t))"
    using vne tv by (metis hd_dropWhile last_rev)
  obtain r where "?u = trim t @ r"
    using tv by (metis rev_append rev_rev_ident takeWhile_dropWhile_id)
  then have "hd (trim t) = hd ?u" using assms by (metis hd_append2)
  moreover have "\<not> isWhiteSpace (hd ?u)" using une by (rule hd_dropWhile)
  ultimately show ?thesis using l by simp
qed

lemma trim_empty_iff: "trim k = [] \<longleftrightarrow> list_all isWhiteSpace k"
proof
  assume "trim k = []"
  then have "dropWhile isWhiteSpace (rev (dropWhile isWhiteSpace k)) = []"
    unfolding trim_def trimEnd_def trimStart_def by (metis rev_is_Nil_conv)
  then have "\<forall>x\<in>set (dropWhile isWhiteSpace k). isWhiteSpace x"
    unfolding dropWhile_eq_Nil_conv by (metis set_rev)
  then have "dropWhile isWhiteSpace k = []"
    by (metis hd_dropWhile hd_in_set)
  then show "list_all isWhiteSpace k"
    by (simp add: dropWhile_eq_Nil_conv list_all_iff)
next
  assume "list_all isWhiteSpace k"
  then have "dropWhile isWhiteSpace k = []"
    by (simp add: dropWhile_eq_Nil_conv list_all_iff)
  then show "trim k = []"
    unfolding trim_def trimEnd_def trimStart_def by (metis dropWhile.simps(1) rev.simps(1))
qed

section \<open>Properties of the service\<close>

subsection \<open>The initialization error comes first\<close>

lemma credential_unusable_iff:
  "credential_unusable v \<longleftrightarrow> (\<forall>k. v = JSString k \<longrightarrow> trim k = [])"
  by (cases v) (simp_all add: credential_unusable_def trim_empty_iff)

lemma initialize_unusable:
  assumes "credential_unusable (apiKeyFromEnv p)"
  shows "initialize p ctor = Returned failed_state"
proof -
  have "init_try p ctor module_start =
          (module_start\<lparr>apiKeyInitializationError := Some (new_Error missingKeyMessage)\<rparr>,
           Some (new_Error missingKeyMessage))"
    using assms unfolding credential_unusable_iff
    by (cases "apiKeyFromEnv p") (simp_all add: init_try_def)
  then show ?thesis
    by (simp add: initialize_def init_catch_def slot_value_def new_Error_def
        module_start_def failed_state_def)
qed

lemma initialize_ctor_throws:
  assumes "apiKeyFromEnv p = JSString k" and "\<not> credential_unusable (JSString k)"
    and "ctor k = Some e" and "get_message e \<noteq> None"
  shows "\<exists>s0 err. initialize p ctor = Returned s0 \<and> ai s0 = None \<and> network s0 = [] \<and>
           apiKeyInitializationError s0 = Some err"
proof -
  have "init_try p ctor module_start = (module_start, Some e)"
    using assms by (simp add: init_try_def credential_unusable_iff)
  then show ?thesis using assms(4)
    by (cases e)
      (auto simp: initialize_def init_catch_def slot_value_def new_Error_def module_start_def)
qed

text \<open>
  Claim C1. Once \<open>apiKeyInitializationError\<close> holds an error, every call of
  \<^verbatim>\<open>generateShortWittiHumorousAnswer\<close> is rejected with that stored error and leaves the
  state as it was: no request reaches the provider and nothing is logged, whatever the
  client slot, the provider and the question are. The error is in place after loading
  when the credential is missing, not a string, empty or whitespace-only (it is then the
  fixed missing-key error), and when the constructor threw a value whose \<^verbatim>\<open>message\<close>
  can be read.
\<close>

theorem initialization_error_rejects_first:
  "(apiKeyInitializationError s = Some err \<longrightarrow>
      generateShortWittiHumorousAnswer g q s = (Raised err, s)) \<and>
   (credential_unusable (apiKeyFromEnv p) \<longrightarrow>
      initialize p ctor = Returned failed_state \<and>
      ai failed_state = None \<and> network failed_state = [] \<and>
      apiKeyInitializationError failed_state = Some (new_Error missingKeyMessage)) \<and>
   (apiKeyFromEnv p' = JSString k \<and> \<not> credential_unusable (JSString k) \<and>
    ctor' k = Some e \<and> get_message e \<noteq> None \<longrightarrow>
      (\<exists>s0 err0. initialize p' ctor' = Returned s0 \<and> ai s0 = None \<and> network s0 = [] \<and>
         apiKeyInitializationError s0 = Some err0))"
proof (intro conjI impI)
  assume "apiKeyInitializationError s = Some err"
  then show "generateShortWittiHumorousAnswer g q s = (Raised err, s)"
    by (simp add: generateShortWittiHumorousAnswer_def callGeminiAPI_def)
next
  assume "credential_unusable (apiKeyFromEnv p)"
  then show "initialize p ctor = Returned failed_state" by (rule initialize_unusable)
next
  show "ai failed_state = None" by (simp add: failed_state_def)
next
  show "network failed_state = []" by (simp add: failed_state_def)
next
  show "apiKeyInitializationError failed_state = Some (new_Error missingKeyMessage)"
    by (simp add: failed_state_def)
next
  assume "apiKeyFromEnv p' = JSString k \<and> \<not> credential_unusable (JSString k) \<and>
    ctor' k = Some e \<and> get_message e \<noteq> None"
  then show "\<exists>s0 err0. initialize p' ctor' = Returned s0 \<and> ai s0 = None \<and> network s0 = [] \<and>
         apiKeyInitializationError s0 = Some err0"
    using initialize_ctor_throws by blast
qed

lemma ws_key: "\<not> credential_unusable (JSString ''key'')"
  by (simp add: credential_unusable_def isWhiteSpace_def)

theorem initialization_error_rejects_first_witness:
  "apiKeyInitializationError failed_state = Some (new_Error missingKeyMessage) \<and>
   generateShortWittiHumorousAnswer (answers (Fulfilled (JSString ''Sure.''))) ''Why?'' failed_state =
     (Raised (new_Error missingKeyMessage), failed_state) \<and>
   credential_unusable (apiKeyFromEnv (ProcessEnv (JSString ''   ''))) \<and>
   initialize (ProcessEnv (JSString ''   '')) constructs = Returned failed_state \<and>
   apiKeyFromEnv (ProcessEnv (JSString ''key'')) = JSString ''key'' \<and>
   \<not> credential_unusable (JSString ''key'') \<and>
   always_throws (new_Error ''boom'') ''key'' = Some (new_Error ''boom'') \<and>
   get_message (new_Error ''boom'') \<noteq> None \<and>
   (\<exists>s0 err0. initialize (ProcessEnv (JSString ''key'')) (always_throws (new_Error ''boom'')) = Returned s0 \<and>
      ai s0 = None \<and> network s0 = [] \<and> apiKeyInitializationError s0 = Some err0)"
proof -
  have a: "apiKeyInitializationError failed_state = Some (new_Error missingKeyMessage)"
    by (simp add: failed_state_def)
  have b: "credential_unusable (apiKeyFromEnv (ProcessEnv (JSString ''   '')))"
    by (simp add: credential_unusable_def apiKeyFromEnv_def isWhiteSpace_def)
  have c: "apiKeyFromEnv (ProcessEnv (JSString ''key'')) = JSString ''key''"
    by (simp add: apiKeyFromEnv_def)
  have d: "always_throws (new_Error ''boom'') ''key'' = Some (new_Error ''boom'')"
    by (simp add: always_throws_def)
  have e: "get_message (new_Error ''boom'') \<noteq> None" by (simp add: new_Error_def)
  show ?thesis
    using a b c d e ws_key
      initialization_error_rejects_first [of failed_state "new_Error missingKeyMessage"
        "answers (Fulfilled (JSString ''Sure.''))" "''Why?''"
        "ProcessEnv (JSString ''   '')" constructs
        "ProcessEnv (JSString ''key'')" "''key''" "always_throws (new_Error ''boom'')"
        "new_Error ''boom''"]
    by blast
qed

subsection \<open>Failures of the provider call\<close>

lemma ci_code:
  "containsIgnoringCase msg pat = includes_str (toLowerCase msg) (toLowerCase pat)"
  by (simp add: includes_lower_iff)

lemma ready_rejected:
  assumes "apiKeyInitializationError s = None" and "ai s = Some c"
    and "g c \<lparr>model = modelName, contents = createShortHumorousPrompt q\<rparr> = RejectedWith e"
  shows "generateShortWittiHumorousAnswer g q s =
           call_catch e (s\<lparr>network := network s @
             [\<lparr>model = modelName, contents = createShortHumorousPrompt q\<rparr>]\<rparr>)"
  using assms by (simp add: generateShortWittiHumorousAnswer_def callGeminiAPI_def)

lemma ready_fulfilled_string:
  assumes "apiKeyInitializationError s = None" and "ai s = Some c"
    and "g c \<lparr>model = modelName, contents = createShortHumorousPrompt q\<rparr> = Fulfilled (JSString t)"
  shows "generateShortWittiHumorousAnswer g q s =
           (Returned (trim t), s\<lparr>network := network s @
             [\<lparr>model = modelName, contents = createShortHumorousPrompt q\<rparr>]\<rparr>)"
  using assms by (simp add: generateShortWittiHumorousAnswer_def callGeminiAPI_def)

lemma call_catch_string:
  assumes "get_message e = Some (JSString msg)" and "msg \<noteq> []"
  shows "fst (call_catch e s) =
     Raised (new_Error
       (if containsIgnoringCase msg ''api key not valid'' \<or>
           containsIgnoringCase msg ''permission denied'' then invalidKeyMessage
        else if containsIgnoringCase msg ''quota'' then quotaMessage
        else if containsIgnoringCase msg ''model not found'' then modelNotFoundMessage
        else msg))"
proof -
  have "containsIgnoringCase msg ''api key not valid'' =
          includes_str (toLowerCase msg) ''api key not valid''"
       "containsIgnoringCase msg ''permission denied'' =
          includes_str (toLowerCase msg) ''permission denied''"
       "containsIgnoringCase msg ''quota'' = includes_str (toLowerCase msg) ''quota''"
       "containsIgnoringCase msg ''model not found'' =
          includes_str (toLowerCase msg) ''model not found''"
    unfolding ci_code lower_patterns by simp_all
  then show ?thesis using assms by (simp add: call_catch_def Let_def)
qed

lemma call_catch_falsy:
  assumes "get_message e = Some m" and "\<not> truthy m"
  shows "fst (call_catch e s) = Raised (new_Error communicationMessage)"
  using assms by (simp add: call_catch_def Let_def)

lemma call_catch_unreadable:
  assumes "get_message e = None"
  shows "fst (call_catch e s) = RaisedTypeError"
  using assms by (simp add: call_catch_def Let_def)

lemma call_catch_state:
  "snd (call_catch e s) =
     s\<lparr>console := console s @ [ConsoleError ''Error calling Gemini API:'' (ArgThrown e)]\<rparr>"
  by (simp add: call_catch_def Let_def split: option.splits jsval.splits)

lemma format_message_unclassified:
  "\<not> containsIgnoringCase formatMessage ''api key not valid''"
  "\<not> containsIgnoringCase formatMessage ''permission denied''"
  "\<not> containsIgnoringCase formatMessage ''quota''"
  "\<not> containsIgnoringCase formatMessage ''model not found''"
  by (simp_all add: ci_code formatMessage_def toLowerCase_def toLowerCaseChar_def char_of_eq_iff)

lemma ready_state_ready:
  "apiKeyInitializationError ready_state = None" "ai ready_state = Some (GoogleGenAI ''key'')"
  by (simp_all add: ready_state_def)

text \<open>
  Claim C2. When the provider call fails with a value whose \<^verbatim>\<open>message\<close> is a
  non-empty string, the rejection is chosen by case-insensitive substring match in
  priority order: "api key not valid" or "permission denied" gives the invalid-key
  error; otherwise "quota" gives the quota error; otherwise "model not found" gives the
  model-not-found error. The match is stated with \<open>containsIgnoringCase\<close>: some
  substring of the message equals the pattern once both are lower-cased.
\<close>

theorem provider_errors_classified:
  assumes "apiKeyInitializationError s = None" and "ai s = Some c"
    and "g c \<lparr>model = modelName, contents = createShortHumorousPrompt q\<rparr> = RejectedWith e"
    and "get_message e = Some (JSString msg)" and "msg \<noteq> []"
  shows "(containsIgnoringCase msg ''api key not valid'' \<or>
          containsIgnoringCase msg ''permission denied'' \<longrightarrow>
            fst (generateShortWittiHumorousAnswer g q s) = Raised (new_Error invalidKeyMessage)) \<and>
         (\<not> containsIgnoringCase msg ''api key not valid'' \<and>
          \<not> containsIgnoringCase msg ''permission denied'' \<and>
          containsIgnoringCase msg ''quota'' \<longrightarrow>
            fst (generateShortWittiHumorousAnswer g q s) = Raised (new_Error quotaMessage)) \<and>
         (\<not> containsIgnoringCase msg ''api key not valid'' \<and>
          \<not> containsIgnoringCase msg ''permission denied'' \<and>
          \<not> containsIgnoringCase msg ''quota'' \<and>
          containsIgnoringCase msg ''model not found'' \<longrightarrow>
            fst (generateShortWittiHumorousAnswer g q s) = Raised (new_Error modelNotFoundMessage))"
  using call_catch_string [OF assms(4,5)] ready_rejected [of s c g q e] assms(1,2,3) by simp

theorem provider_errors_classified_witness:
  "fst (generateShortWittiHumorousAnswer
          (answers (RejectedWith (new_Error ''api key NOT valid''))) ''Why?'' ready_state) =
     Raised (new_Error invalidKeyMessage) \<and>
   fst (generateShortWittiHumorousAnswer
          (answers (RejectedWith (new_Error ''Quota exceeded for today''))) ''Why?'' ready_state) =
     Raised (new_Error quotaMessage) \<and>
   fst (generateShortWittiHumorousAnswer
          (answers (RejectedWith (new_Error ''Model Not Found: gemini''))) ''Why?'' ready_state) =
     Raised (new_Error modelNotFoundMessage)"
proof -
  have m: "\<And>t. get_message (new_Error t) = Some (JSString t)" by (simp add: new_Error_def)
  have a: "containsIgnoringCase ''api key NOT valid'' ''api key not valid''"
    by (simp add: ci_code toLowerCase_def toLowerCaseChar_def char_of_eq_iff)
  have b: "\<not> containsIgnoringCase ''Quota exceeded for today'' ''api key not valid''"
          "\<not> containsIgnoringCase ''Quota exceeded for today'' ''permission denied''"
          "containsIgnoringCase ''Quota exceeded for today'' ''quota''"
    by (simp_all add: ci_code toLowerCase_def toLowerCaseChar_def char_of_eq_iff)
  have c: "\<not> containsIgnoringCase ''Model Not Found: gemini'' ''api key not valid''"
          "\<not> containsIgnoringCase ''Model Not Found: gemini'' ''permission denied''"
          "\<not> containsIgnoringCase ''Model Not Found: gemini'' ''quota''"
          "containsIgnoringCase ''Model Not Found: gemini'' ''model not found''"
    by (simp_all add: ci_code toLowerCase_def toLowerCaseChar_def char_of_eq_iff)
  have 1: "fst (generateShortWittiHumorousAnswer
          (answers (RejectedWith (new_Error ''api key NOT valid''))) ''Why?'' ready_state) =
     Raised (new_Error invalidKeyMessage)"
    using a provider_errors_classified [OF ready_state_ready, of
        "answers (RejectedWith (new_Error ''api key NOT valid''))" "''Why?''" _ "''api key NOT valid''"]
    by (simp add: answers_def m)
  have 2: "fst (generateShortWittiHumorousAnswer
          (answers (RejectedWith (new_Error ''Quota exceeded for today''))) ''Why?'' ready_state) =
     Raised (new_Error quotaMessage)"
    using b provider_errors_classified [OF ready_state_ready, of
        "answers (RejectedWith (new_Error ''Quota exceeded for today''))" "''Why?''" _
        "''Quota exceeded for today''"]
    by (simp add: answers_def m)
  have 3: "fst (generateShortWittiHumorousAnswer
          (answers (RejectedWith (new_Error ''Model Not Found: gemini''))) ''Why?'' ready_state) =
     Raised (new_Error modelNotFoundMessage)"
    using c provider_errors_classified [OF ready_state_ready, of
        "answers (RejectedWith (new_Error ''Model Not Found: gemini''))" "''Why?''" _
        "''Model Not Found: gemini''"]
    by (simp add: answers_def m)
  from 1 2 3 show ?thesis by simp
qed

text \<open>
  Claim C4. When the provider's response carries a string as its \<^verbatim>\<open>text\<close>, the call
  resolves with that string trimmed: the result is the middle part of the text between a
  leading and a trailing run of whitespace, and, unless empty, neither starts nor ends
  with whitespace.
\<close>

theorem string_response_trimmed:
  assumes "apiKeyInitializationError s = None" and "ai s = Some c"
    and "g c \<lparr>model = modelName, contents = createShortHumorousPrompt q\<rparr> = Fulfilled (JSString t)"
  shows "fst (generateShortWittiHumorousAnswer g q s) = Returned (trim t) \<and>
         (\<exists>l r. t = l @ trim t @ r \<and> list_all isWhiteSpace l \<and> list_all isWhiteSpace r) \<and>
         (trim t \<noteq> [] \<longrightarrow> \<not> isWhiteSpace (hd (trim t)) \<and> \<not> isWhiteSpace (last (trim t)))"
  using ready_fulfilled_string [of s c g q t] assms trim_decompose [of t] trim_ends [of t] by simp

theorem string_response_trimmed_witness:
  "fst (generateShortWittiHumorousAnswer
          (answers (Fulfilled (JSString ''  Obviously not.  ''))) ''Why?'' ready_state) =
     Returned ''Obviously not.''"
proof -
  have "trim ''  Obviously not.  '' = ''Obviously not.''"
    by (simp add: trim_def trimEnd_def trimStart_def isWhiteSpace_def)
  then show ?thesis
    using string_response_trimmed [OF ready_state_ready, of
        "answers (Fulfilled (JSString ''  Obviously not.  ''))" "''Why?''" "''  Obviously not.  ''"]
    by (simp add: answers_def)
qed

lemma ready_fulfilled_other:
  assumes "apiKeyInitializationError s = None" and "ai s = Some c"
    and "g c \<lparr>model = modelName, contents = createShortHumorousPrompt q\<rparr> = Fulfilled payload"
    and "\<forall>t. payload \<noteq> JSString t"
  shows "generateShortWittiHumorousAnswer g q s =
           call_catch (new_Error formatMessage)
             (s\<lparr>network := network s @
                  [\<lparr>model = modelName, contents = createShortHumorousPrompt q\<rparr>],
                console := console s @
                  [ConsoleWarn ''Received non-string response from AI, text was:'' (ArgVal payload)]\<rparr>)"
  using assms
  by (cases payload) (simp_all add: generateShortWittiHumorousAnswer_def callGeminiAPI_def)

lemma call_catch_format:
  "fst (call_catch (new_Error formatMessage) s) = Raised (new_Error formatMessage)"
proof -
  have "get_message (new_Error formatMessage) = Some (JSString formatMessage)"
    by (simp add: new_Error_def)
  moreover have "formatMessage \<noteq> []" by (simp add: formatMessage_def)
  ultimately show ?thesis
    using call_catch_string [of "new_Error formatMessage" formatMessage s]
      format_message_unclassified by simp
qed

text \<open>
  Claim C5. When the provider's response carries anything but a string as its
  \<^verbatim>\<open>text\<close> (undefined, for one), the call writes a warning to the console and is
  rejected with an error whose message is "The AI's response was not in the expected text
  format.". The error is thrown inside the \<^verbatim>\<open>try\<close> block, so it passes through the
  \<^verbatim>\<open>catch\<close> block, which logs it, finds none of the classified substrings in its
  message and throws a new error with the same message.
\<close>

theorem non_string_response_rejected:
  assumes "apiKeyInitializationError s = None" and "ai s = Some c"
    and "g c \<lparr>model = modelName, contents = createShortHumorousPrompt q\<rparr> = Fulfilled payload"
    and "\<forall>t. payload \<noteq> JSString t"
  shows "generateShortWittiHumorousAnswer g q s =
           (Raised (new_Error formatMessage),
            s\<lparr>network := network s @
                 [\<lparr>model = modelName, contents = createShortHumorousPrompt q\<rparr>],
               console := console s @
                 [ConsoleWarn ''Received non-string response from AI, text was:'' (ArgVal payload),
                  ConsoleError ''Error calling Gemini API:'' (ArgThrown (new_Error formatMessage))]\<rparr>)"
proof (rule prod_eqI)
  show "fst (generateShortWittiHumorousAnswer g q s) =
        fst (Raised (new_Error formatMessage),
            s\<lparr>network := network s @
                 [\<lparr>model = modelName, contents = createShortHumorousPrompt q\<rparr>],
               console := console s @
                 [ConsoleWarn ''Received non-string response from AI, text was:'' (ArgVal payload),
                  ConsoleError ''Error calling Gemini API:'' (ArgThrown (new_Error formatMessage))]\<rparr>)"
    using ready_fulfilled_other [of s c g q payload] assms call_catch_format by simp
next
  show "snd (generateShortWittiHumorousAnswer g q s) =
        snd (Raised (new_Error formatMessage),
            s\<lparr>network := network s @
                 [\<lparr>model = modelName, contents = createShortHumorousPrompt q\<rparr>],
               console := console s @
                 [ConsoleWarn ''Received non-string response from AI, text was:'' (ArgVal payload),
                  ConsoleError ''Error calling Gemini API:'' (ArgThrown (new_Error formatMessage))]\<rparr>)"
    using ready_fulfilled_other [of s c g q payload] assms call_catch_state by simp
qed

theorem non_string_response_rejected_witness:
  "generateShortWittiHumorousAnswer (answers (Fulfilled JSUndefined)) ''Why?'' ready_state =
     (Raised (new_Error formatMessage),
      ready_state\<lparr>network := [\<lparr>model = modelName, contents = createShortHumorousPrompt ''Why?''\<rparr>],
        console :=
          [ConsoleWarn ''Received non-string response from AI, text was:'' (ArgVal JSUndefined),
           ConsoleError ''Error calling Gemini API:'' (ArgThrown (new_Error formatMessage))]\<rparr>)"
  using non_string_response_rejected [OF ready_state_ready, of
      "answers (Fulfilled JSUndefined)" "''Why?''" JSUndefined]
  by (simp add: answers_def ready_state_def)

lemma call_catch_receiver:
  assumes "get_message e = Some m" and "truthy m" and "string_receiver m = Some msg"
  shows "fst (call_catch e s) =
     Raised (new_Error
       (if containsIgnoringCase msg ''api key not valid'' \<or>
           containsIgnoringCase msg ''permission denied'' then invalidKeyMessage
        else if containsIgnoringCase msg ''quota'' then quotaMessage
        else if containsIgnoringCase msg ''model not found'' then modelNotFoundMessage
        else String_of m))"
proof -
  have "containsIgnoringCase msg ''api key not valid'' =
          includes_str (toLowerCase msg) ''api key not valid''"
       "containsIgnoringCase msg ''permission denied'' =
          includes_str (toLowerCase msg) ''permission denied''"
       "containsIgnoringCase msg ''quota'' = includes_str (toLowerCase msg) ''quota''"
       "containsIgnoringCase msg ''model not found'' =
          includes_str (toLowerCase msg) ''model not found''"
    unfolding ci_code lower_patterns by simp_all
  then show ?thesis using assms by (simp add: call_catch_def Let_def)
qed

lemma call_catch_no_receiver:
  assumes "get_message e = Some m" and "truthy m" and "string_receiver m = None"
  shows "fst (call_catch e s) = RaisedTypeError"
  using assms by (simp add: call_catch_def Let_def)

text \<open>
  Claim C6, as amended. When the provider call fails with a value whose \<^verbatim>\<open>message\<close>
  is a string (a non-empty primitive string, or a String object) that contains none of
  "api key not valid", "permission denied", "quota" and "model not found" in any letter
  case, the call is rejected with an error whose message is exactly that string.
\<close>

theorem unclassified_message_passes_through:
  assumes "apiKeyInitializationError s = None" and "ai s = Some c"
    and "g c \<lparr>model = modelName, contents = createShortHumorousPrompt q\<rparr> = RejectedWith e"
    and "get_message e = Some m"
    and "(m = JSString msg \<and> msg \<noteq> []) \<or> m = JSStringObject msg"
    and "\<not> containsIgnoringCase msg ''api key not valid''"
    and "\<not> containsIgnoringCase msg ''permission denied''"
    and "\<not> containsIgnoringCase msg ''quota''"
    and "\<not> containsIgnoringCase msg ''model not found''"
  shows "fst (generateShortWittiHumorousAnswer g q s) = Raised (new_Error msg)"
proof -
  have "truthy m" and "string_receiver m = Some msg" and "String_of m = msg"
    using assms(5) by auto
  then have "fst (call_catch e (s\<lparr>network := network s @
      [\<lparr>model = modelName, contents = createShortHumorousPrompt q\<rparr>]\<rparr>)) = Raised (new_Error msg)"
    using call_catch_receiver [OF assms(4), of msg] assms(6-9) by simp
  then show ?thesis using ready_rejected [of s c g q e] assms(1-3) by simp
qed

theorem unclassified_message_passes_through_witness:
  "fst (generateShortWittiHumorousAnswer
          (answers (RejectedWith (new_Error ''Some obscure network blip''))) ''Why?'' ready_state) =
     Raised (new_Error ''Some obscure network blip'') \<and>
   fst (generateShortWittiHumorousAnswer
          (answers (RejectedWith (ThrownObject False (JSStringObject ''Some obscure network blip''))))
          ''Why?'' ready_state) =
     Raised (new_Error ''Some obscure network blip'')"
proof -
  have n: "\<not> containsIgnoringCase ''Some obscure network blip'' ''api key not valid''"
          "\<not> containsIgnoringCase ''Some obscure network blip'' ''permission denied''"
          "\<not> containsIgnoringCase ''Some obscure network blip'' ''quota''"
          "\<not> containsIgnoringCase ''Some obscure network blip'' ''model not found''"
    by (simp_all add: ci_code toLowerCase_def toLowerCaseChar_def char_of_eq_iff)
  have 1: "fst (generateShortWittiHumorousAnswer
          (answers (RejectedWith (new_Error ''Some obscure network blip''))) ''Why?'' ready_state) =
     Raised (new_Error ''Some obscure network blip'')"
    using n unclassified_message_passes_through [OF ready_state_ready, of
        "answers (RejectedWith (new_Error ''Some obscure network blip''))" "''Why?''"
        "new_Error ''Some obscure network blip''" "JSString ''Some obscure network blip''"
        "''Some obscure network blip''"]
    by (simp add: answers_def new_Error_def)
  have 2: "fst (generateShortWittiHumorousAnswer
          (answers (RejectedWith (ThrownObject False (JSStringObject ''Some obscure network blip''))))
          ''Why?'' ready_state) =
     Raised (new_Error ''Some obscure network blip'')"
    using n unclassified_message_passes_through [OF ready_state_ready, of
        "answers (RejectedWith (ThrownObject False (JSStringObject ''Some obscure network blip'')))"
        "''Why?''" "ThrownObject False (JSStringObject ''Some obscure network blip'')"
        "JSStringObject ''Some obscure network blip''" "''Some obscure network blip''"]
    by (simp add: answers_def)
  from 1 2 show ?thesis by simp
qed

text \<open>
  Claim C6 as stated fails when the message is truthy but not a string, the number 42
  for one: it carries a message, \<^verbatim>\<open>String(42)\<close> contains none of the classified
  substrings, yet the call \<^verbatim>\<open>error.message.toLowerCase()\<close> at line 69 raises a
  TypeError, and the call is rejected with that TypeError instead of an error with the
  message "42".
\<close>

theorem non_string_message_counterexample:
  "get_message (ThrownObject False (JSOther True ''42'')) = Some (JSOther True ''42'') \<and>
   truthy (JSOther True ''42'') \<and>
   String_of (JSOther True ''42'') = ''42'' \<and>
   \<not> containsIgnoringCase ''42'' ''api key not valid'' \<and>
   \<not> containsIgnoringCase ''42'' ''permission denied'' \<and>
   \<not> containsIgnoringCase ''42'' ''quota'' \<and>
   \<not> containsIgnoringCase ''42'' ''model not found'' \<and>
   fst (generateShortWittiHumorousAnswer
          (answers (RejectedWith (ThrownObject False (JSOther True ''42'')))) ''Why?'' ready_state) =
     RaisedTypeError \<and>
   fst (generateShortWittiHumorousAnswer
          (answers (RejectedWith (ThrownObject False (JSOther True ''42'')))) ''Why?'' ready_state) \<noteq>
     Raised (new_Error ''42'')"
proof -
  have n: "\<not> containsIgnoringCase ''42'' ''api key not valid''"
          "\<not> containsIgnoringCase ''42'' ''permission denied''"
          "\<not> containsIgnoringCase ''42'' ''quota''"
          "\<not> containsIgnoringCase ''42'' ''model not found''"
    by (simp_all add: ci_code toLowerCase_def toLowerCaseChar_def char_of_eq_iff)
  have "generateShortWittiHumorousAnswer
          (answers (RejectedWith (ThrownObject False (JSOther True ''42'')))) ''Why?'' ready_state =
        call_catch (ThrownObject False (JSOther True ''42''))
          (ready_state\<lparr>network := network ready_state @
             [\<lparr>model = modelName, contents = createShortHumorousPrompt ''Why?''\<rparr>]\<rparr>)"
    using ready_rejected [OF ready_state_ready, of
        "answers (RejectedWith (ThrownObject False (JSOther True ''42'')))" "''Why?''"
        "ThrownObject False (JSOther True ''42'')"]
    by (simp add: answers_def)
  then have "fst (generateShortWittiHumorousAnswer
          (answers (RejectedWith (ThrownObject False (JSOther True ''42'')))) ''Why?'' ready_state) =
     RaisedTypeError"
    by (simp add: call_catch_no_receiver [of _ "JSOther True ''42''"])
  with n show ?thesis by simp
qed

text \<open>
  Claim C7, as amended. When the provider call fails with a value other than undefined
  and null that has no \<^verbatim>\<open>message\<close> property (an object without one, or a primitive
  value, for which the property read yields undefined), the call is rejected with the
  fixed message "Failed to generate answer due to an API communication error.".
\<close>

theorem no_message_generic_error:
  assumes "apiKeyInitializationError s = None" and "ai s = Some c"
    and "g c \<lparr>model = modelName, contents = createShortHumorousPrompt q\<rparr> = RejectedWith e"
    and "get_message e = Some JSUndefined"
  shows "fst (generateShortWittiHumorousAnswer g q s) = Raised (new_Error communicationMessage)"
  using call_catch_falsy [OF assms(4)] ready_rejected [of s c g q e] assms(1,2,3) by simp

theorem no_message_generic_error_witness:
  "fst (generateShortWittiHumorousAnswer
          (answers (RejectedWith (ThrownObject False JSUndefined))) ''Why?'' ready_state) =
     Raised (new_Error communicationMessage) \<and>
   fst (generateShortWittiHumorousAnswer
          (answers (RejectedWith ThrownPrimitive)) ''Why?'' ready_state) =
     Raised (new_Error communicationMessage)"
  using no_message_generic_error [OF ready_state_ready, of
      "answers (RejectedWith (ThrownObject False JSUndefined))" "''Why?''"
      "ThrownObject False JSUndefined"]
    no_message_generic_error [OF ready_state_ready, of
      "answers (RejectedWith ThrownPrimitive)" "''Why?''" ThrownPrimitive]
  by (simp add: answers_def)

text \<open>
  Claim C7 as stated fails when the rejection value is undefined (or null): it has no
  \<^verbatim>\<open>message\<close> property, yet the read \<^verbatim>\<open>error.message\<close> at line 68 raises a TypeError
  inside the \<^verbatim>\<open>catch\<close> block, and the call is rejected with that TypeError instead of
  the generic communication error.
\<close>

theorem nullish_rejection_counterexample:
  "get_message ThrownUndefined = None \<and>
   fst (generateShortWittiHumorousAnswer
          (answers (RejectedWith ThrownUndefined)) ''Why?'' ready_state) = RaisedTypeError \<and>
   fst (generateShortWittiHumorousAnswer
          (answers (RejectedWith ThrownUndefined)) ''Why?'' ready_state) \<noteq>
     Raised (new_Error communicationMessage)"
proof -
  have "generateShortWittiHumorousAnswer
          (answers (RejectedWith ThrownUndefined)) ''Why?'' ready_state =
        call_catch ThrownUndefined (ready_state\<lparr>network := network ready_state @
             [\<lparr>model = modelName, contents = createShortHumorousPrompt ''Why?''\<rparr>]\<rparr>)"
    using ready_rejected [OF ready_state_ready, of
        "answers (RejectedWith ThrownUndefined)" "''Why?''" ThrownUndefined]
    by (simp add: answers_def)
  then show ?thesis by (simp add: call_catch_unreadable)
qed

text \<open>
  Claim C9. When the provider call fails with an object whose \<^verbatim>\<open>message\<close> property is
  the empty string, or any other falsy value, the call is rejected with the generic
  communication error, exactly as for an object with no message at all: line 68 tests
  the truthiness of the message, not its presence.
\<close>

theorem falsy_message_generic_error:
  assumes "apiKeyInitializationError s = None" and "ai s = Some c"
    and "g c \<lparr>model = modelName, contents = createShortHumorousPrompt q\<rparr> =
           RejectedWith (ThrownObject isErr m)"
    and "\<not> truthy m"
  shows "fst (generateShortWittiHumorousAnswer g q s) = Raised (new_Error communicationMessage) \<and>
         fst (generateShortWittiHumorousAnswer g q s) =
           fst (call_catch (ThrownObject isErr JSUndefined)
                  (s\<lparr>network := network s @
                    [\<lparr>model = modelName, contents = createShortHumorousPrompt q\<rparr>]\<rparr>))"
proof -
  have "get_message (ThrownObject isErr m) = Some m" by simp
  then have "fst (generateShortWittiHumorousAnswer g q s) = Raised (new_Error communicationMessage)"
    using call_catch_falsy [of "ThrownObject isErr m" m] assms
      ready_rejected [of s c g q "ThrownObject isErr m"] by simp
  moreover have "fst (call_catch (ThrownObject isErr JSUndefined)
                  (s\<lparr>network := network s @
                    [\<lparr>model = modelName, contents = createShortHumorousPrompt q\<rparr>]\<rparr>)) =
                 Raised (new_Error communicationMessage)"
    by (rule call_catch_falsy [of _ JSUndefined]) simp_all
  ultimately show ?thesis by simp
qed

theorem falsy_message_generic_error_witness:
  "fst (generateShortWittiHumorousAnswer
          (answers (RejectedWith (new_Error ''''))) ''Why?'' ready_state) =
     Raised (new_Error communicationMessage) \<and>
   fst (generateShortWittiHumorousAnswer
          (answers (RejectedWith (ThrownObject False (JSOther False ''0'')))) ''Why?'' ready_state) =
     Raised (new_Error communicationMessage)"
  using falsy_message_generic_error [OF ready_state_ready, of
      "answers (RejectedWith (new_Error ''''))" "''Why?''" True "JSString ''''"]
    falsy_message_generic_error [OF ready_state_ready, of
      "answers (RejectedWith (ThrownObject False (JSOther False ''0'')))" "''Why?''"
      False "JSOther False ''0''"]
  by (simp add: answers_def new_Error_def)

subsection \<open>The prompt and the question\<close>

lemma includes_middle: "includes_str (a @ sub @ b) sub"
  unfolding includes_str_iff by blast

lemma includes_append_left: "includes_str a sub \<Longrightarrow> includes_str (a @ b) sub"
  unfolding includes_str_iff by (metis append.assoc)

lemma includes_append_right: "includes_str b sub \<Longrightarrow> includes_str (a @ b) sub"
  unfolding includes_str_iff by (metis append.assoc)

lemma promptHead_parts:
  "promptHead =
     (''\<newline>You are an AI that specializes in delivering extremely short, punchy, and hilariously absurd '' @
      [CHR 0x22] @ ''quick quips'' @ [CHR 0x22] @ '' in response to questions. '') @
     ''Your answers should be 5 words or less.'' @
     ('' '' @ ''They should sound confident'' @
      ('' but be outrageously funny, often by being blatantly false, misleading, or a complete non-sequitur, yet delivered as if it's a profound, albeit brief, truth. The humor should be sharp and unexpected. '' @
       ''Lean heavily towards comedic falsehoods.'' @
       (''\<newline>\<newline>User's question: '' @ [CHR 0x22])))"
  by (simp add: promptHead_def)

lemma promptTail_parts:
  "promptTail =
     ([CHR 0x22] @ ''\<newline>\<newline>Deliver your quick quip '') @
     ''(5 words or less, hilariously absurd/false, confident tone) as plain text:'' @
     ''\<newline>  ''"
  by (simp add: promptTail_def)

lemma head_phrases:
  "includes_str promptHead ''Your answers should be 5 words or less.''"
  "includes_str promptHead ''They should sound confident''"
  "includes_str promptHead ''Lean heavily towards comedic falsehoods.''"
proof -
  show "includes_str promptHead ''Your answers should be 5 words or less.''"
    by (subst promptHead_parts) (rule includes_middle)
  show "includes_str promptHead ''They should sound confident''"
    by (subst promptHead_parts)
      (intro includes_append_right [of "'' '' @ _"] includes_append_right [of "_ @ _"]
        includes_middle)
  show "includes_str promptHead ''Lean heavily towards comedic falsehoods.''"
    by (subst promptHead_parts)
      (intro includes_append_right [of "'' '' @ _"] includes_append_right [of "_ @ _"]
        includes_middle)
qed

lemma tail_phrases:
  "includes_str promptTail ''(5 words or less, hilariously absurd/false, confident tone) as plain text:''"
  by (subst promptTail_parts) (rule includes_middle)

lemma includes_self: "includes_str s s"
  unfolding includes_str_iff by (metis append_Nil append_Nil2)

text \<open>
  Claim C8. The prompt builder is a function of the question alone, given in closed
  form: the fixed head of the template, the question unchanged, the fixed tail. Its body
  reads no variable but its parameter and assigns nothing, so it is modelled without any
  state, and equal questions give equal prompts. The prompt contains the question
  verbatim and the fixed instruction text: five words or less, a confident tone,
  comedic falsehoods, plain text.
\<close>

theorem prompt_is_template_around_question:
  "createShortHumorousPrompt q = promptHead @ q @ promptTail \<and>
   includes_str (createShortHumorousPrompt q) q \<and>
   includes_str (createShortHumorousPrompt q) promptHead \<and>
   includes_str (createShortHumorousPrompt q) promptTail \<and>
   includes_str (createShortHumorousPrompt q) ''Your answers should be 5 words or less.'' \<and>
   includes_str (createShortHumorousPrompt q) ''They should sound confident'' \<and>
   includes_str (createShortHumorousPrompt q) ''Lean heavily towards comedic falsehoods.'' \<and>
   includes_str (createShortHumorousPrompt q)
     ''(5 words or less, hilariously absurd/false, confident tone) as plain text:''"
proof -
  have q: "includes_str (promptHead @ q @ promptTail) q"
    by (intro includes_append_right includes_append_left includes_self)
  have h: "includes_str (promptHead @ q @ promptTail) promptHead"
    by (intro includes_append_left includes_self)
  have t: "includes_str (promptHead @ q @ promptTail) promptTail"
    by (intro includes_append_right includes_self)
  have hp: "includes_str (promptHead @ q @ promptTail) ''Your answers should be 5 words or less.''"
       "includes_str (promptHead @ q @ promptTail) ''They should sound confident''"
       "includes_str (promptHead @ q @ promptTail) ''Lean heavily towards comedic falsehoods.''"
    by (intro includes_append_left head_phrases)+
  have tp: "includes_str (promptHead @ q @ promptTail)
       ''(5 words or less, hilariously absurd/false, confident tone) as plain text:''"
    by (intro includes_append_right tail_phrases)
  from q h t hp tp show ?thesis by (simp add: createShortHumorousPrompt_def)
qed

theorem prompt_is_template_around_question_witness:
  "createShortHumorousPrompt ''Why?'' = promptHead @ ''Why?'' @ promptTail \<and>
   includes_str (createShortHumorousPrompt ''Why?'') ''Why?'' \<and>
   createShortHumorousPrompt '''' = promptHead @ '''' @ promptTail"
  using prompt_is_template_around_question [of "''Why?''"]
    prompt_is_template_around_question [of "''''"]
  by blast

lemma call_catch_result_only_error: "fst (call_catch e s) = fst (call_catch e s')"
  by (simp add: call_catch_def Let_def split: option.splits jsval.splits)

lemma ready_result:
  assumes "apiKeyInitializationError s = None" and "ai s = Some c"
  shows "fst (generateShortWittiHumorousAnswer g q s) =
     (case g c \<lparr>model = modelName, contents = createShortHumorousPrompt q\<rparr> of
        NeverSettles \<Rightarrow> Pending
      | RejectedWith e \<Rightarrow> fst (call_catch e s)
      | Fulfilled v \<Rightarrow>
          (case v of JSString t \<Rightarrow> Returned (trim t)
           | _ \<Rightarrow> fst (call_catch (new_Error formatMessage) s)))"
  using assms
  by (auto simp: generateShortWittiHumorousAnswer_def callGeminiAPI_def Let_def
      split: provider_outcome.splits jsval.splits intro: call_catch_result_only_error)

lemma ready_network:
  assumes "apiKeyInitializationError s = None" and "ai s = Some c"
  shows "network (snd (generateShortWittiHumorousAnswer g q s)) =
           network s @ [\<lparr>model = modelName, contents = createShortHumorousPrompt q\<rparr>]"
  using assms
  by (auto simp: generateShortWittiHumorousAnswer_def callGeminiAPI_def Let_def call_catch_state
      split: provider_outcome.splits jsval.splits)

text \<open>
  Claim C10. The service does not validate the question. With a client in place and no
  initialization error, a call for any question, the empty and the whitespace-only ones
  included, hands the provider exactly one request whose contents are the template
  around that question unchanged; and the outcome depends on the question only through
  what the provider answers: two questions that the provider answers alike settle alike.
\<close>

theorem question_is_not_validated:
  assumes "apiKeyInitializationError s = None" and "ai s = Some c"
  shows "network (snd (generateShortWittiHumorousAnswer g q s)) =
           network s @ [\<lparr>model = modelName, contents = promptHead @ q @ promptTail\<rparr>] \<and>
         (g c \<lparr>model = modelName, contents = createShortHumorousPrompt q\<rparr> =
          g c \<lparr>model = modelName, contents = createShortHumorousPrompt q'\<rparr> \<longrightarrow>
            fst (generateShortWittiHumorousAnswer g q s) =
            fst (generateShortWittiHumorousAnswer g q' s))"
  using ready_network [OF assms] ready_result [OF assms]
  by (simp add: createShortHumorousPrompt_def)

theorem question_is_not_validated_witness:
  "network (snd (generateShortWittiHumorousAnswer
      (answers (Fulfilled (JSString ''Sure.''))) '''' ready_state)) =
     [\<lparr>model = modelName, contents = promptHead @ promptTail\<rparr>] \<and>
   network (snd (generateShortWittiHumorousAnswer
      (answers (Fulfilled (JSString ''Sure.''))) ''   '' ready_state)) =
     [\<lparr>model = modelName, contents = promptHead @ ''   '' @ promptTail\<rparr>] \<and>
   fst (generateShortWittiHumorousAnswer
      (answers (Fulfilled (JSString ''Sure.''))) '''' ready_state) =
   fst (generateShortWittiHumorousAnswer
      (answers (Fulfilled (JSString ''Sure.''))) ''Why?'' ready_state)"
  using question_is_not_validated [OF ready_state_ready, of
      "answers (Fulfilled (JSString ''Sure.''))" "''''" "''Why?''"]
    question_is_not_validated [OF ready_state_ready, of
      "answers (Fulfilled (JSString ''Sure.''))" "''   ''" "''Why?''"]
  by (simp add: answers_def ready_state_def)

subsection \<open>The two slots after loading\<close>

lemma call_keeps_slots:
  "ai (snd (generateShortWittiHumorousAnswer g q s)) = ai s \<and>
   apiKeyInitializationError (snd (generateShortWittiHumorousAnswer g q s)) =
     apiKeyInitializationError s"
  by (auto simp: generateShortWittiHumorousAnswer_def callGeminiAPI_def Let_def call_catch_state
      split: option.splits provider_outcome.splits jsval.splits)

lemma later_calls_keep_slots:
  "ai (later_calls cs s) = ai s \<and>
   apiKeyInitializationError (later_calls cs s) = apiKeyInitializationError s"
proof (induction cs arbitrary: s)
  case Nil
  show ?case by simp
next
  case (Cons a cs)
  obtain g q where a: "a = (g, q)" by (cases a)
  show ?case using Cons.IH [of "snd (generateShortWittiHumorousAnswer g q s)"]
      call_keeps_slots [of g q s] by (simp add: a)
qed

lemma init_catch_foreign:
  assumes "init_catch e module_start = Returned s0"
  shows "ai s0 = None \<and> (apiKeyInitializationError s0 = None \<longrightarrow> e = ThrownNull)"
  using assms
  by (cases e)
    (auto simp: init_catch_def slot_value_def module_start_def new_Error_def Let_def
      split: if_splits)

lemma initialize_cases:
  assumes "initialize p ctor = Returned s0"
  shows "(ai s0 \<noteq> None \<and> apiKeyInitializationError s0 = None) \<or>
         (ai s0 = None \<and> apiKeyInitializationError s0 \<noteq> None) \<or>
         (ai s0 = None \<and> apiKeyInitializationError s0 = None \<and>
            (\<exists>k. apiKeyFromEnv p = JSString k \<and> trim k \<noteq> [] \<and> ctor k = Some ThrownNull))"
proof (cases "credential_unusable (apiKeyFromEnv p)")
  case True
  then have "s0 = failed_state" using assms initialize_unusable [of p ctor] by simp
  then show ?thesis by (simp add: failed_state_def)
next
  case False
  then obtain k where k: "apiKeyFromEnv p = JSString k" "trim k \<noteq> []"
    unfolding credential_unusable_iff by blast
  show ?thesis
  proof (cases "ctor k")
    case None
    then have "s0 = module_start\<lparr>ai := Some (GoogleGenAI k)\<rparr>"
      using assms k by (simp add: initialize_def init_try_def)
    then show ?thesis by (simp add: module_start_def)
  next
    case (Some e)
    then have "init_catch e module_start = Returned s0"
      using assms k by (simp add: initialize_def init_try_def)
    then have "ai s0 = None" and "apiKeyInitializationError s0 = None \<longrightarrow> e = ThrownNull"
      using init_catch_foreign [of e s0] by simp_all
    then show ?thesis using Some k by auto
  qed
qed

lemma init_catch_completes:
  assumes "e \<noteq> ThrownUndefined"
  shows "\<exists>s. init_catch e module_start = Returned s"
  using assms
  by (cases e) (auto simp: init_catch_def slot_value_def module_start_def new_Error_def Let_def)

lemma initialize_completes:
  assumes "\<not> (\<exists>k. apiKeyFromEnv p = JSString k \<and> trim k \<noteq> [] \<and> ctor k = Some ThrownUndefined)"
  shows "\<exists>s. initialize p ctor = Returned s"
proof (cases "credential_unusable (apiKeyFromEnv p)")
  case True
  then show ?thesis using initialize_unusable [of p ctor] by blast
next
  case False
  then obtain k where k: "apiKeyFromEnv p = JSString k" "trim k \<noteq> []"
    unfolding credential_unusable_iff by blast
  show ?thesis
  proof (cases "ctor k")
    case None
    then show ?thesis using k by (simp add: initialize_def init_try_def)
  next
    case (Some e)
    then have "e \<noteq> ThrownUndefined" using assms k by auto
    then show ?thesis
      using init_catch_completes [of e] Some k by (simp add: initialize_def init_try_def)
  qed
qed

lemma initialize_ready: "initialize (ProcessEnv (JSString ''key'')) constructs = Returned ready_state"
  by (simp add: initialize_def init_try_def apiKeyFromEnv_def constructs_def ready_state_def
      module_start_def trim_def trimEnd_def trimStart_def isWhiteSpace_def)

lemma initialize_failed: "initialize ProcessUndefined constructs = Returned failed_state"
  by (rule initialize_unusable) (simp add: credential_unusable_def apiKeyFromEnv_def)

text \<open>
  What holds of the two slots on every path. Loading completes unless the constructor,
  called with the configured key, throws undefined. When it has completed, the client
  slot and the error slot are never both set; both are empty exactly when the
  constructor, called with the configured key, threw \<^verbatim>\<open>null\<close>, and otherwise exactly one
  of them is set; and no sequence of later calls changes either slot.
\<close>

lemma slots_after_initialization:
  assumes "initialize p ctor = Returned s0"
  shows "\<not> (ai s0 \<noteq> None \<and> apiKeyInitializationError s0 \<noteq> None)"
    and "(ai s0 = None \<and> apiKeyInitializationError s0 = None) \<longleftrightarrow>
           (\<exists>k. apiKeyFromEnv p = JSString k \<and> trim k \<noteq> [] \<and> ctor k = Some ThrownNull)"
    and "ai (later_calls cs s0) = ai s0"
    and "apiKeyInitializationError (later_calls cs s0) = apiKeyInitializationError s0"
proof -
  show "\<not> (ai s0 \<noteq> None \<and> apiKeyInitializationError s0 \<noteq> None)"
    using initialize_cases [OF assms] by auto
  show "(ai s0 = None \<and> apiKeyInitializationError s0 = None) \<longleftrightarrow>
           (\<exists>k. apiKeyFromEnv p = JSString k \<and> trim k \<noteq> [] \<and> ctor k = Some ThrownNull)"
  proof
    assume "ai s0 = None \<and> apiKeyInitializationError s0 = None"
    then show "\<exists>k. apiKeyFromEnv p = JSString k \<and> trim k \<noteq> [] \<and> ctor k = Some ThrownNull"
      using initialize_cases [OF assms] by auto
  next
    assume "\<exists>k. apiKeyFromEnv p = JSString k \<and> trim k \<noteq> [] \<and> ctor k = Some ThrownNull"
    then obtain k where "apiKeyFromEnv p = JSString k" "trim k \<noteq> []" "ctor k = Some ThrownNull"
      by blast
    then have "initialize p ctor = Returned module_start"
      by (simp add: initialize_def init_try_def init_catch_def slot_value_def module_start_def)
    then have "s0 = module_start" using assms by simp
    then show "ai s0 = None \<and> apiKeyInitializationError s0 = None"
      by (simp add: module_start_def)
  qed
  show "ai (later_calls cs s0) = ai s0" by (simp add: later_calls_keep_slots)
  show "apiKeyInitializationError (later_calls cs s0) = apiKeyInitializationError s0"
    by (simp add: later_calls_keep_slots)
qed

text \<open>
  Claim C3. The claim asks that after loading exactly one of the client slot and the
  error slot is set. The code misses one case: when the constructor, called with a usable
  key, throws \<^verbatim>\<open>null\<close>, the test \<^verbatim>\<open>e !== apiKeyInitializationError\<close> at line 23 compares
  \<^verbatim>\<open>null\<close> with \<^verbatim>\<open>null\<close>, nothing is recorded, and loading ends with both slots empty.
  Every call then takes the fallback of line 46 and is rejected with the
  client-not-initialized error, the state staying as it is.
\<close>

theorem constructor_throwing_null_sets_neither_slot:
  assumes "apiKeyFromEnv p = JSString k" and "trim k \<noteq> []" and "ctor k = Some ThrownNull"
  shows "initialize p ctor = Returned module_start \<and>
         ai module_start = None \<and>
         apiKeyInitializationError module_start = None \<and>
         generateShortWittiHumorousAnswer g q module_start =
           (Raised (new_Error clientMissingMessage), module_start)"
  using assms
  by (simp add: initialize_def init_try_def init_catch_def slot_value_def module_start_def
      generateShortWittiHumorousAnswer_def callGeminiAPI_def)

theorem constructor_throwing_null_sets_neither_slot_witness:
  "apiKeyFromEnv (ProcessEnv (JSString ''key'')) = JSString ''key'' \<and>
   trim ''key'' \<noteq> [] \<and>
   always_throws ThrownNull ''key'' = Some ThrownNull \<and>
   initialize (ProcessEnv (JSString ''key'')) (always_throws ThrownNull) = Returned module_start \<and>
   ai module_start = None \<and>
   apiKeyInitializationError module_start = None \<and>
   generateShortWittiHumorousAnswer
     (answers (Fulfilled (JSString ''Sure.''))) ''Why?'' module_start =
     (Raised (new_Error clientMissingMessage), module_start)"
proof -
  have a: "apiKeyFromEnv (ProcessEnv (JSString ''key'')) = JSString ''key''"
    by (simp add: apiKeyFromEnv_def)
  have b: "trim ''key'' \<noteq> []"
    by (simp add: trim_def trimEnd_def trimStart_def isWhiteSpace_def)
  have c: "always_throws ThrownNull ''key'' = Some ThrownNull"
    by (simp add: always_throws_def)
  show ?thesis
    using a b c constructor_throwing_null_sets_neither_slot [of
        "ProcessEnv (JSString ''key'')" "''key''" "always_throws ThrownNull"
        "answers (Fulfilled (JSString ''Sure.''))" "''Why?''"]
    by simp
qed

end
